theory Spec2Isabelle
  imports Complex_Main "HOL-Library.Monad_Syntax"
begin

section \<open>JavaScript values\<close>

text \<open>
  A value as it reaches the service: the parsed body of a transport response or the raw
  request handed to the dispatcher. Numbers carry the exact rational value of the finite
  double; an object is an association list read with \<open>map_of\<close> (first binding of a key).
  Strings are lists of 8-bit characters, so one character stands for one code unit.
\<close>

datatype jsval =
    JUndefined
  | JNull
  | JBool bool
  | JNum rat
  | JStr string
  | JArr "jsval list"
  | JObj "(string \<times> jsval) list"

text \<open>
  The result of \<open>parseFloat\<close>/\<open>parseInt\<close> and the numeric fields of a quote. \<open>Fin r\<close>
  stands for the double nearest to \<open>r\<close>: rounding of the mantissa inside the finite range
  (and the sign of zero) is not modelled, overflow to an infinity is.
\<close>

datatype jsnum = NaN | PosInfinity | NegInfinity | Fin rat

definition DBL_OVERFLOW :: rat where
  "DBL_OVERFLOW = 2 ^ 1024 - 2 ^ 970"

definition to_double :: "rat \<Rightarrow> jsnum" where
  "to_double r =
     (if DBL_OVERFLOW \<le> r then PosInfinity
      else if r \<le> - DBL_OVERFLOW then NegInfinity
      else Fin r)"

definition Number_isNaN :: "jsnum \<Rightarrow> bool" where
  "Number_isNaN x = (x = NaN)"

text \<open>Property read \<open>o.k\<close> on the entries of an object: a missing key reads as undefined.\<close>

definition field :: "(string \<times> jsval) list \<Rightarrow> string \<Rightarrow> jsval" where
  "field kvs k = (case map_of kvs k of None \<Rightarrow> JUndefined | Some v \<Rightarrow> v)"

section \<open>String to number conversion\<close>

definition is_digit :: "char \<Rightarrow> bool" where
  "is_digit c = (c \<in> set ''0123456789'')"

text \<open>White space stripped by \<open>parseFloat\<close> and \<open>parseInt\<close> (the ASCII part of it).\<close>

definition is_ws :: "char \<Rightarrow> bool" where
  "is_ws c = (c \<in> set [CHR '' '', CHR 0x09, CHR 0x0A, CHR 0x0B, CHR 0x0C, CHR 0x0D])"

text \<open>The value of a digit, from its character code.\<close>

definition digit_val :: "char \<Rightarrow> nat" where
  "digit_val c = of_char c - of_char CHR ''0''"

definition digits_val :: "string \<Rightarrow> nat" where
  "digits_val ds = foldl (\<lambda>a c. 10 * a + digit_val c) 0 ds"

text \<open>An optional sign in front of a numeral: the factor and the rest of the string.\<close>

fun read_sign :: "string \<Rightarrow> int \<times> string" where
  "read_sign [] = (1, [])"
| "read_sign (c # cs) =
     (if c = CHR ''-'' then (- 1, cs) else if c = CHR ''+'' then (1, cs) else (1, c # cs))"

definition starts_with :: "string \<Rightarrow> string \<Rightarrow> bool" where
  "starts_with s p = (take (length p) s = p)"

text \<open>
  The exponent part after the mantissa: \<open>e\<close> or \<open>E\<close>, an optional sign and at least one
  digit; anything else is not part of the numeral and counts as exponent 0.
\<close>

definition read_exponent :: "string \<Rightarrow> int" where
  "read_exponent s =
     (case s of
        [] \<Rightarrow> 0
      | c # cs \<Rightarrow>
          if c = CHR ''e'' \<or> c = CHR ''E'' then
            (let (sg, r) = read_sign cs; ds = takeWhile is_digit r
             in if ds = [] then 0 else sg * int (digits_val ds))
          else 0)"

definition pow10 :: "int \<Rightarrow> rat" where
  "pow10 e = (if 0 \<le> e then 10 ^ nat e else 1 / 10 ^ nat (- e))"

text \<open>
  \<open>parseFloat(s)\<close>: strip leading white space, read the longest prefix that is a decimal
  literal (sign, \<open>Infinity\<close>, or digits with an optional fraction and exponent); \<open>NaN\<close> when
  there is none.
\<close>

definition parseFloat :: "string \<Rightarrow> jsnum" where
  "parseFloat s =
     (let (sg, t) = read_sign (dropWhile is_ws s) in
      if starts_with t ''Infinity'' then (if sg < 0 then NegInfinity else PosInfinity)
      else
        let ip = takeWhile is_digit t;
            r1 = dropWhile is_digit t;
            has_dot = (r1 \<noteq> [] \<and> hd r1 = CHR ''.'');
            fp = (if has_dot then takeWhile is_digit (tl r1) else []);
            r2 = (if has_dot then dropWhile is_digit (tl r1) else r1)
        in if ip = [] \<and> fp = [] then NaN
           else to_double
                  (of_int sg * (of_nat (digits_val ip) + of_nat (digits_val fp) / 10 ^ length fp)
                     * pow10 (read_exponent r2)))"

text \<open>\<open>parseInt(s, 10)\<close>: leading white space, a sign, then the longest run of digits.\<close>

definition parseInt10 :: "string \<Rightarrow> jsnum" where
  "parseInt10 s =
     (let (sg, t) = read_sign (dropWhile is_ws s); ds = takeWhile is_digit t
      in if ds = [] then NaN else to_double (of_int (sg * int (digits_val ds))))"

section \<open>Error model\<close>

datatype ErrorCode =
    VALIDATION_ERROR
  | AUTH_FAILED
  | AUTH_TOKEN_EXPIRED
  | RATE_LIMITED
  | NETWORK_ERROR
  | TIMEOUT
  | CARRIER_ERROR
  | MALFORMED_RESPONSE
  | UNKNOWN

text \<open>
  Anything a JavaScript \<open>throw\<close> can raise: the service's own \<open>CarrierIntegrationError\<close>
  (code, message, statusCode, carrierCode, context, cause), another \<open>Error\<close> (its name and
  message), or a value that is not an \<open>Error\<close> at all.
\<close>

datatype thrown =
    CarrierIntegrationError
      (code: ErrorCode) (message: string) (statusCode: "int option")
      (carrierCode: "string option") (ctx: "(string \<times> jsval) list option")
      (cause: "thrown option")
  | Error (error_name: string) (error_message: string)
  | ThrownValue jsval

definition isCarrierIntegrationError :: "thrown \<Rightarrow> bool" where
  "isCarrierIntegrationError err = (case err of CarrierIntegrationError _ _ _ _ _ _ \<Rightarrow> True | _ \<Rightarrow> False)"

definition instanceof_Error :: "thrown \<Rightarrow> bool" where
  "instanceof_Error err = (case err of ThrownValue _ \<Rightarrow> False | _ \<Rightarrow> True)"

text \<open>\<open>err.message\<close> of a thrown \<open>Error\<close> (a \<open>CarrierIntegrationError\<close> is one).\<close>

definition message_of :: "thrown \<Rightarrow> string" where
  "message_of err =
     (case err of
        CarrierIntegrationError _ m _ _ _ _ \<Rightarrow> m
      | Error _ m \<Rightarrow> m
      | ThrownValue _ \<Rightarrow> [])"

section \<open>Domain model\<close>

record RateQuote =
  carrier :: string
  serviceCode :: string
  serviceName :: string
  totalCharge :: jsnum
  currencyCode :: string
  transitDays :: "jsnum option"
  carrierServiceId :: "string option"

record RateResponse =
  quotes :: "RateQuote list"
  requestId :: "string option"

section \<open>Schema combinators\<close>

text \<open>
  The checks of the validation library on a raw value: \<open>None\<close> is a failed
  \<open>safeParse\<close>, \<open>Some\<close> carries the parsed data. The text of the library's issues is
  not modelled. \<open>optional\<close> accepts undefined (a missing key) only, not null.
\<close>

definition z_string :: "jsval \<Rightarrow> string option" where
  "z_string v = (case v of JStr s \<Rightarrow> Some s | _ \<Rightarrow> None)"

definition z_number :: "jsval \<Rightarrow> rat option" where
  "z_number v = (case v of JNum r \<Rightarrow> Some r | _ \<Rightarrow> None)"

definition z_optional :: "(jsval \<Rightarrow> 'a option) \<Rightarrow> jsval \<Rightarrow> 'a option option" where
  "z_optional f v = (case v of JUndefined \<Rightarrow> Some None | _ \<Rightarrow> map_option Some (f v))"

definition z_default :: "'a \<Rightarrow> (jsval \<Rightarrow> 'a option) \<Rightarrow> jsval \<Rightarrow> 'a option" where
  "z_default d f v = (case v of JUndefined \<Rightarrow> Some d | _ \<Rightarrow> f v)"

definition z_array :: "(jsval \<Rightarrow> 'a option) \<Rightarrow> jsval \<Rightarrow> 'a list option" where
  "z_array f v = (case v of JArr vs \<Rightarrow> those (map f vs) | _ \<Rightarrow> None)"

definition z_object :: "((string \<times> jsval) list \<Rightarrow> 'a option) \<Rightarrow> jsval \<Rightarrow> 'a option" where
  "z_object f v = (case v of JObj kvs \<Rightarrow> f kvs | _ \<Rightarrow> None)"

section \<open>Wire mapper: the carrier's rate response\<close>

record UpsService =
  svc_Code :: "string option"
  svc_Name :: "string option"

record UpsTotalCharges =
  MonetaryValue :: "string option"
  CurrencyCode :: "string option"

record UpsGuaranteedDelivery =
  BusinessDaysInTransit :: "string option"

record UpsRatedShipment =
  Service :: "UpsService option"
  TotalCharges :: "UpsTotalCharges option"
  GuaranteedDelivery :: "UpsGuaranteedDelivery option"

record UpsResponseStatus =
  status_Code :: "string option"
  status_Description :: "string option"

record UpsResponse =
  ResponseStatus :: "UpsResponseStatus option"

record UpsRateResponseBody =
  Response :: "UpsResponse option"
  RatedShipment :: "UpsRatedShipment list option"

record UpsRateResponseTop =
  RateResponse :: "UpsRateResponseBody option"

definition UpsServiceSchema :: "jsval \<Rightarrow> UpsService option" where
  "UpsServiceSchema = z_object (\<lambda>kvs. do {
     c \<leftarrow> z_optional z_string (field kvs ''Code'');
     n \<leftarrow> z_optional z_string (field kvs ''Name'');
     Some \<lparr>svc_Code = c, svc_Name = n\<rparr> })"

definition UpsTotalChargesSchema :: "jsval \<Rightarrow> UpsTotalCharges option" where
  "UpsTotalChargesSchema = z_object (\<lambda>kvs. do {
     m \<leftarrow> z_optional z_string (field kvs ''MonetaryValue'');
     c \<leftarrow> z_optional z_string (field kvs ''CurrencyCode'');
     Some \<lparr>MonetaryValue = m, CurrencyCode = c\<rparr> })"

definition UpsGuaranteedDeliverySchema :: "jsval \<Rightarrow> UpsGuaranteedDelivery option" where
  "UpsGuaranteedDeliverySchema = z_object (\<lambda>kvs. do {
     b \<leftarrow> z_optional z_string (field kvs ''BusinessDaysInTransit'');
     Some \<lparr>BusinessDaysInTransit = b\<rparr> })"

definition UpsRatedShipmentSchema :: "jsval \<Rightarrow> UpsRatedShipment option" where
  "UpsRatedShipmentSchema = z_object (\<lambda>kvs. do {
     s \<leftarrow> z_optional UpsServiceSchema (field kvs ''Service'');
     t \<leftarrow> z_optional UpsTotalChargesSchema (field kvs ''TotalCharges'');
     g \<leftarrow> z_optional UpsGuaranteedDeliverySchema (field kvs ''GuaranteedDelivery'');
     Some \<lparr>Service = s, TotalCharges = t, GuaranteedDelivery = g\<rparr> })"

definition UpsResponseStatusSchema :: "jsval \<Rightarrow> UpsResponseStatus option" where
  "UpsResponseStatusSchema = z_object (\<lambda>kvs. do {
     c \<leftarrow> z_optional z_string (field kvs ''Code'');
     d \<leftarrow> z_optional z_string (field kvs ''Description'');
     Some \<lparr>status_Code = c, status_Description = d\<rparr> })"

definition UpsResponseSchema :: "jsval \<Rightarrow> UpsResponse option" where
  "UpsResponseSchema = z_object (\<lambda>kvs. do {
     s \<leftarrow> z_optional UpsResponseStatusSchema (field kvs ''ResponseStatus'');
     Some \<lparr>ResponseStatus = s\<rparr> })"

definition UpsRateResponseBodySchema :: "jsval \<Rightarrow> UpsRateResponseBody option" where
  "UpsRateResponseBodySchema = z_object (\<lambda>kvs. do {
     r \<leftarrow> z_optional UpsResponseSchema (field kvs ''Response'');
     s \<leftarrow> z_optional (z_array UpsRatedShipmentSchema) (field kvs ''RatedShipment'');
     Some \<lparr>Response = r, RatedShipment = s\<rparr> })"

definition UpsRateResponseSchema :: "jsval \<Rightarrow> UpsRateResponseTop option" where
  "UpsRateResponseSchema = z_object (\<lambda>kvs. do {
     r \<leftarrow> z_optional UpsRateResponseBodySchema (field kvs ''RateResponse'');
     Some \<lparr>RateResponse = r\<rparr> })"

text \<open>
  Known service code to display name; an unknown code is echoed. (Properties that the
  table object inherits, such as \<open>constructor\<close>, are not modelled.)
\<close>

definition UPS_SERVICE_NAMES :: "(string \<times> string) list" where
  "UPS_SERVICE_NAMES =
     [(''01'', ''Next Day Air''), (''02'', ''2nd Day Air''), (''03'', ''Ground''),
      (''07'', ''Worldwide Express''), (''08'', ''Worldwide Expedited''), (''11'', ''Standard''),
      (''12'', ''3 Day Select''), (''13'', ''Next Day Air Saver''), (''14'', ''Next Day Air Early''),
      (''54'', ''Worldwide Express Plus''), (''59'', ''2nd Day Air A.M.''),
      (''65'', ''Worldwide Saver''), (''70'', ''Worldwide Express Sprint''),
      (''71'', ''Worldwide Express Sprint Plus''), (''96'', ''Worldwide Express Freight''),
      (''M2'', ''First Class Mail''), (''M3'', ''Priority Mail''),
      (''M4'', ''Expedited Mail Innovations''), (''M5'', ''Priority Mail Innovations''),
      (''M6'', ''Economy Mail Innovations'')]"

definition upsServiceName :: "string \<Rightarrow> string" where
  "upsServiceName c = (case map_of UPS_SERVICE_NAMES c of Some n \<Rightarrow> n | None \<Rightarrow> c)"

text \<open>Optional chaining \<open>a?.b\<close> on parsed data.\<close>

definition opt_chain :: "'a option \<Rightarrow> ('a \<Rightarrow> 'b option) \<Rightarrow> 'b option" where
  "opt_chain a f = (case a of None \<Rightarrow> None | Some x \<Rightarrow> f x)"

text \<open>Nullish coalescing \<open>a ?? d\<close>.\<close>

definition nullish :: "'a option \<Rightarrow> 'a \<Rightarrow> 'a" where
  "nullish a d = (case a of None \<Rightarrow> d | Some x \<Rightarrow> x)"

text \<open>The arrow function mapped over the rated shipments in \<open>parseUpsRateResponse\<close>.\<close>

definition ratedShipmentToQuote :: "string \<Rightarrow> UpsRatedShipment \<Rightarrow> RateQuote" where
  "ratedShipmentToQuote carrierId s =
     (let svc = Service s;
          cd = nullish (opt_chain svc svc_Code) ''UNKNOWN'';
          total = opt_chain (TotalCharges s) MonetaryValue;
          currency = nullish (opt_chain (TotalCharges s) CurrencyCode) ''USD'';
          transit = opt_chain (GuaranteedDelivery s) BusinessDaysInTransit;
          totalChargeV = (case total of None \<Rightarrow> Fin 0
                          | Some t \<Rightarrow> if t \<noteq> [] then parseFloat t else Fin 0);
          transitDaysNum = (case transit of None \<Rightarrow> None
                            | Some t \<Rightarrow> if t \<noteq> [] then Some (parseInt10 t) else None)
      in \<lparr>carrier = carrierId,
          serviceCode = cd,
          serviceName = nullish (opt_chain svc svc_Name) (upsServiceName cd),
          totalCharge = (if Number_isNaN totalChargeV then Fin 0 else totalChargeV),
          currencyCode = currency,
          transitDays = (case transitDaysNum of None \<Rightarrow> None
                         | Some d \<Rightarrow> if \<not> Number_isNaN d then Some d else None),
          carrierServiceId = Some cd\<rparr>)"

definition em_dash :: string where
  "em_dash = [CHR 0xE2, CHR 0x80, CHR 0x94]"

text \<open>
  \<open>parseUpsRateResponse(body, carrierId)\<close>. The issue text that the validation library
  appends to the first message, and its \<open>issues\<close> entry of the context, are left out.
\<close>

definition parseUpsRateResponse :: "jsval \<Rightarrow> string \<Rightarrow> thrown + RateResponse" where
  "parseUpsRateResponse body carrierId =
     (case UpsRateResponseSchema body of
        None \<Rightarrow>
          Inl (CarrierIntegrationError MALFORMED_RESPONSE
                 (''UPS rate response invalid '' @ em_dash @ '' '') None None
                 (Some [(''body'', body)]) None)
      | Some parsed \<Rightarrow>
          (case RateResponse parsed of
             None \<Rightarrow>
               Inl (CarrierIntegrationError MALFORMED_RESPONSE
                      ''UPS rate response missing RateResponse'' None None
                      (Some [(''body'', body)]) None)
           | Some rateResponse \<Rightarrow>
               (let status = opt_chain (Response rateResponse) ResponseStatus;
                    scode = opt_chain status status_Code
                in if scode \<noteq> None \<and> scode \<noteq> Some [] \<and> scode \<noteq> Some ''1'' then
                     Inl (CarrierIntegrationError CARRIER_ERROR
                            (nullish (opt_chain status status_Description)
                               (''UPS error: '' @ the scode))
                            None scode (Some [(''body'', body)]) None)
                   else
                     Inr \<lparr>quotes = map (ratedShipmentToQuote carrierId)
                                      (nullish (RatedShipment rateResponse) []),
                          requestId = None\<rparr>)))"

section \<open>Domain model: the rate request and its validation\<close>

record Address =
  line1 :: string
  line2 :: "string option"
  line3 :: "string option"
  city :: string
  stateProvinceCode :: "string option"
  postalCode :: string
  countryCode :: string

datatype WeightUnit = LBS | KGS

datatype DimensionUnit = IN | CM

text \<open>The field \<open>length\<close> of a package is \<open>length'\<close> here.\<close>

record Package =
  weight :: rat
  weightUnit :: WeightUnit
  length' :: "rat option"
  width :: "rat option"
  height :: "rat option"
  dimensionUnit :: DimensionUnit

text \<open>The field \<open>serviceCode\<close> of a request is \<open>serviceCode_req\<close> here.\<close>

record RateRequest =
  origin :: Address
  destination :: Address
  packages :: "Package list"
  serviceCode_req :: "string option"

definition z_string_min :: "nat \<Rightarrow> jsval \<Rightarrow> string option" where
  "z_string_min n v = (case v of JStr s \<Rightarrow> if n \<le> length s then Some s else None | _ \<Rightarrow> None)"

definition z_string_max :: "nat \<Rightarrow> jsval \<Rightarrow> string option" where
  "z_string_max n v = (case v of JStr s \<Rightarrow> if length s \<le> n then Some s else None | _ \<Rightarrow> None)"

definition z_string_length :: "nat \<Rightarrow> jsval \<Rightarrow> string option" where
  "z_string_length n v = (case v of JStr s \<Rightarrow> if length s = n then Some s else None | _ \<Rightarrow> None)"

definition z_number_positive :: "jsval \<Rightarrow> rat option" where
  "z_number_positive v = (case v of JNum r \<Rightarrow> if 0 < r then Some r else None | _ \<Rightarrow> None)"

definition z_number_int_positive :: "jsval \<Rightarrow> int option" where
  "z_number_int_positive v =
     (case v of JNum r \<Rightarrow> if of_int \<lfloor>r\<rfloor> = r \<and> 0 < r then Some \<lfloor>r\<rfloor> else None | _ \<Rightarrow> None)"

definition z_enum :: "(string \<times> 'a) list \<Rightarrow> jsval \<Rightarrow> 'a option" where
  "z_enum tbl v = (case v of JStr s \<Rightarrow> map_of tbl s | _ \<Rightarrow> None)"

definition z_array_min :: "nat \<Rightarrow> (jsval \<Rightarrow> 'a option) \<Rightarrow> jsval \<Rightarrow> 'a list option" where
  "z_array_min n f v =
     (case z_array f v of Some xs \<Rightarrow> if n \<le> length xs then Some xs else None | None \<Rightarrow> None)"

definition AddressSchema :: "jsval \<Rightarrow> Address option" where
  "AddressSchema = z_object (\<lambda>kvs. do {
     l1 \<leftarrow> z_string_min 1 (field kvs ''line1'');
     l2 \<leftarrow> z_optional z_string (field kvs ''line2'');
     l3 \<leftarrow> z_optional z_string (field kvs ''line3'');
     c \<leftarrow> z_string_min 1 (field kvs ''city'');
     sp \<leftarrow> z_optional (z_string_max 10) (field kvs ''stateProvinceCode'');
     pc \<leftarrow> z_string_min 1 (field kvs ''postalCode'');
     cc \<leftarrow> z_string_length 2 (field kvs ''countryCode'');
     Some \<lparr>line1 = l1, line2 = l2, line3 = l3, city = c, stateProvinceCode = sp,
           postalCode = pc, countryCode = cc\<rparr> })"

definition PackageSchema :: "jsval \<Rightarrow> Package option" where
  "PackageSchema = z_object (\<lambda>kvs. do {
     w \<leftarrow> z_number_positive (field kvs ''weight'');
     wu \<leftarrow> z_default LBS (z_enum [(''LBS'', LBS), (''KGS'', KGS)]) (field kvs ''weightUnit'');
     l \<leftarrow> z_optional z_number_positive (field kvs ''length'');
     wd \<leftarrow> z_optional z_number_positive (field kvs ''width'');
     h \<leftarrow> z_optional z_number_positive (field kvs ''height'');
     du \<leftarrow> z_default IN (z_enum [(''IN'', IN), (''CM'', CM)]) (field kvs ''dimensionUnit'');
     Some \<lparr>weight = w, weightUnit = wu, length' = l, width = wd, height = h,
           dimensionUnit = du\<rparr> })"

definition RateRequestSchema :: "jsval \<Rightarrow> RateRequest option" where
  "RateRequestSchema = z_object (\<lambda>kvs. do {
     og \<leftarrow> AddressSchema (field kvs ''origin'');
     ds \<leftarrow> AddressSchema (field kvs ''destination'');
     ps \<leftarrow> z_array_min 1 PackageSchema (field kvs ''packages'');
     sc \<leftarrow> z_optional (z_string_max 10) (field kvs ''serviceCode'');
     Some \<lparr>origin = og, destination = ds, packages = ps, serviceCode_req = sc\<rparr> })"

section \<open>Wire mapper: the carrier's rate request\<close>

text \<open>
  The request body sent to the carrier. \<open>String(n)\<close> of a number is kept as the number:
  the decimal rendering of a double is not modelled.
\<close>

record UpsAddress =
  AddressLine :: "string list option"
  City :: string
  StateProvinceCode :: "string option"
  PostalCode :: string
  CountryCode :: string

record UpsDimensions =
  dim_UnitOfMeasurement :: string
  Length :: rat
  Width :: rat
  Height :: rat

record UpsPackageWeight =
  weight_UnitOfMeasurement :: string
  Weight :: rat

record UpsPackage =
  Packaging :: string
  Dimensions :: "UpsDimensions option"
  PackageWeight :: UpsPackageWeight

record UpsRateRequest =
  RequestOption :: "string list"
  ShipFrom :: UpsAddress
  ShipTo :: UpsAddress
  Package :: "UpsPackage list"
  Service_req :: "string option"

text \<open>\<open>[line1, line2, line3].filter(Boolean)\<close>: absent and empty lines are dropped.\<close>

definition toUpsAddress :: "Address \<Rightarrow> UpsAddress" where
  "toUpsAddress addr =
     (let lines = filter (\<lambda>l. l \<noteq> [])
                    (concat (map (\<lambda>l. case l of None \<Rightarrow> [] | Some x \<Rightarrow> [x])
                               [Some (line1 addr), line2 addr, line3 addr]))
      in \<lparr>AddressLine = (if lines \<noteq> [] then Some lines else None),
          City = city addr,
          StateProvinceCode = stateProvinceCode addr,
          PostalCode = postalCode addr,
          CountryCode = countryCode addr\<rparr>)"

definition toUpsPackage :: "Package \<Rightarrow> UpsPackage" where
  "toUpsPackage pkg =
     (let dimUnit = (if dimensionUnit pkg = CM then ''CM'' else ''IN'');
          wUnit = (if weightUnit pkg = KGS then ''KGS'' else ''LBS'');
          result = \<lparr>Packaging = ''02'',
                    Dimensions = None,
                    PackageWeight = \<lparr>weight_UnitOfMeasurement = wUnit, Weight = weight pkg\<rparr>\<rparr>
      in if length' pkg \<noteq> None \<and> width pkg \<noteq> None \<and> height pkg \<noteq> None then
           result\<lparr>Dimensions := Some \<lparr>dim_UnitOfMeasurement = dimUnit,
                                       Length = the (length' pkg),
                                       Width = the (width pkg),
                                       Height = the (height pkg)\<rparr>\<rparr>
         else result)"

definition buildUpsRateRequest :: "RateRequest \<Rightarrow> UpsRateRequest" where
  "buildUpsRateRequest req =
     \<lparr>RequestOption = [''Shop''],
      ShipFrom = toUpsAddress (origin req),
      ShipTo = toUpsAddress (destination req),
      Package = map toUpsPackage (packages req),
      Service_req = (case serviceCode_req req of
                       None \<Rightarrow> None
                     | Some c \<Rightarrow> if c \<noteq> [] then Some c else None)\<rparr>"

section \<open>Transport interface and configuration\<close>

record UpsConfig =
  clientId :: string
  clientSecret :: string
  apiBaseUrl :: string
  oauthTokenUrl :: string
  requestTimeoutMs :: int
  oauthTimeoutMs :: int
  oauthRefreshBufferSeconds :: int

text \<open>
  The \<open>Authorization\<close> header: \<open>Basic\<close> carries the client id and secret that the source
  joins with a colon and encodes in base64, \<open>Bearer\<close> the access token.
\<close>

datatype Authorization = Basic string string | Bearer string

text \<open>
  The body of a request: the form-encoded text of the token call, or the object of the rate
  call, which the source serialises with \<open>JSON.stringify\<close>.
\<close>

datatype RequestBody = FormBody string | JsonBody UpsRateRequest

text \<open>
  The options of one \<open>http.request\<close> call; the three headers the source sets are fields.
\<close>

record HttpRequest =
  http_method :: string
  url :: string
  contentType :: string
  authorization :: Authorization
  merchantId :: "string option"
  request_body :: RequestBody
  timeoutMs :: int

record HttpResponse =
  status :: int
  headers :: "(string \<times> string) list"
  body :: jsval

text \<open>
  A call of the transport resolves with a response or rejects with a thrown value. The
  client is any function of the requests made so far and the current one, which covers
  the stub of the tests (a queue of responses) as well as a live network.
\<close>

datatype HttpOutcome = Resolved HttpResponse | Rejected thrown

type_synonym HttpClient = "HttpRequest list \<Rightarrow> HttpRequest \<Rightarrow> HttpOutcome"

text \<open>
  The mutable state around one carrier instance: the time \<open>Date.now()\<close> reads, the
  private field \<open>cached\<close> of the OAuth client, and the requests issued through the
  transport, oldest first.
\<close>

record CachedToken =
  cachedAccessToken :: string
  expiresAtMs :: int

record World =
  clock :: int
  cached :: "CachedToken option"
  requests :: "HttpRequest list"

definition http_request :: "HttpClient \<Rightarrow> HttpRequest \<Rightarrow> World \<Rightarrow> HttpOutcome \<times> World" where
  "http_request http rq w = (http (requests w) rq, w\<lparr>requests := requests w @ [rq]\<rparr>)"

text \<open>
  A transport that follows a script: the n-th request is answered by the n-th outcome, and
  a request beyond the script is rejected. The stub client of the tests behaves so when
  its responses are queued with \<open>stubNext\<close> before the calls are made.
\<close>

definition scriptedHttpClient :: "HttpOutcome list \<Rightarrow> HttpClient" where
  "scriptedHttpClient script hist rq =
     (case drop (length hist) script of
        [] \<Rightarrow> Rejected (Error ''Error'' ''StubHttpClient: no stubbed response set.'')
      | x # _ \<Rightarrow> x)"

section \<open>Rendering and searching strings\<close>

fun nat_to_string :: "nat \<Rightarrow> string" where
  "nat_to_string n =
     (if n < 10 then [''0123456789'' ! n]
      else nat_to_string (n div 10) @ [''0123456789'' ! (n mod 10)])"

declare nat_to_string.simps [simp del]

definition int_to_string :: "int \<Rightarrow> string" where
  "int_to_string i = (if i < 0 then CHR ''-'' # nat_to_string (nat (- i)) else nat_to_string (nat i))"

text \<open>\<open>s.includes(t)\<close>: \<open>t\<close> occurs in \<open>s\<close> as a contiguous run.\<close>

fun str_includes :: "string \<Rightarrow> string \<Rightarrow> bool" where
  "str_includes [] t = (t = [])"
| "str_includes (c # cs) t = (starts_with (c # cs) t \<or> str_includes cs t)"

section \<open>Token cache\<close>

record UpsOAuthTokenResponse =
  access_token :: string
  expires_in :: int
  token_type :: "string option"

definition UpsOAuthTokenResponseSchema :: "jsval \<Rightarrow> UpsOAuthTokenResponse option" where
  "UpsOAuthTokenResponseSchema = z_object (\<lambda>kvs. do {
     a \<leftarrow> z_string_min 1 (field kvs ''access_token'');
     e \<leftarrow> z_default 3600 z_number_int_positive (field kvs ''expires_in'');
     t \<leftarrow> z_optional z_string (field kvs ''token_type'');
     Some \<lparr>access_token = a, expires_in = e, token_type = t\<rparr> })"

record TokenResult =
  accessToken :: string
  expiresInSeconds :: int

definition refreshBufferMs :: "UpsConfig \<Rightarrow> int" where
  "refreshBufferMs config = oauthRefreshBufferSeconds config * 1000"

definition tokenRequest :: "UpsConfig \<Rightarrow> HttpRequest" where
  "tokenRequest config =
     \<lparr>http_method = ''POST'',
      url = oauthTokenUrl config,
      contentType = ''application/x-www-form-urlencoded'',
      authorization = Basic (clientId config) (clientSecret config),
      merchantId = Some (clientId config),
      request_body = FormBody ''grant_type=client_credentials'',
      timeoutMs = oauthTimeoutMs config\<rparr>"

text \<open>The body of the \<open>try\<close> block of \<open>requestToken\<close>, once the transport has resolved.\<close>

definition requestToken_response :: "UpsConfig \<Rightarrow> HttpResponse \<Rightarrow> thrown + TokenResult" where
  "requestToken_response config res =
     (if status res = 401 then
        Inl (CarrierIntegrationError AUTH_FAILED ''UPS OAuth: invalid client credentials (401)''
               (Some 401) None (Some [(''url'', JStr (oauthTokenUrl config))]) None)
      else if status res = 429 then
        Inl (CarrierIntegrationError RATE_LIMITED ''UPS OAuth: rate limited (429)''
               (Some 429) None (Some [(''url'', JStr (oauthTokenUrl config))]) None)
      else if status res < 200 \<or> status res \<ge> 300 then
        Inl (CarrierIntegrationError AUTH_FAILED
               (''UPS OAuth failed: HTTP '' @ int_to_string (status res))
               (Some (status res)) None
               (Some [(''url'', JStr (oauthTokenUrl config)), (''body'', body res)]) None)
      else
        (case UpsOAuthTokenResponseSchema (body res) of
           None \<Rightarrow>
             Inl (CarrierIntegrationError MALFORMED_RESPONSE
                    (''UPS OAuth: invalid response '' @ em_dash @ '' '')
                    (Some (status res)) None (Some [(''body'', body res)]) None)
         | Some parsed \<Rightarrow>
             Inr \<lparr>accessToken = access_token parsed, expiresInSeconds = expires_in parsed\<rparr>))"

text \<open>The \<open>catch\<close> block of \<open>requestToken\<close>.\<close>

definition requestToken_catch :: "UpsConfig \<Rightarrow> thrown \<Rightarrow> thrown" where
  "requestToken_catch config err =
     (if isCarrierIntegrationError err then err
      else
        let msg = (if instanceof_Error err then message_of err else ''Unknown error during OAuth'');
            isTimeout = (instanceof_Error err \<and>
                         (error_name err = ''AbortError'' \<or> str_includes msg ''abort''))
        in CarrierIntegrationError (if isTimeout then TIMEOUT else NETWORK_ERROR)
             (''UPS OAuth: '' @ msg) None None
             (Some [(''url'', JStr (oauthTokenUrl config))]) (Some err))"

definition requestToken :: "UpsConfig \<Rightarrow> HttpClient \<Rightarrow> World \<Rightarrow> (thrown + TokenResult) \<times> World" where
  "requestToken config http w =
     (case http_request http (tokenRequest config) w of
        (Rejected err, w') \<Rightarrow> (Inl (requestToken_catch config err), w')
      | (Resolved res, w') \<Rightarrow>
          (case requestToken_response config res of
             Inl err \<Rightarrow> (Inl (requestToken_catch config err), w')
           | Inr result \<Rightarrow> (Inr result, w')))"

text \<open>The test \<open>this.cached && this.cached.expiresAtMs - this.refreshBufferMs > now\<close>.\<close>

definition token_fresh :: "UpsConfig \<Rightarrow> int \<Rightarrow> CachedToken option \<Rightarrow> bool" where
  "token_fresh config now c =
     (case c of None \<Rightarrow> False | Some t \<Rightarrow> expiresAtMs t - refreshBufferMs config > now)"

definition getValidToken :: "UpsConfig \<Rightarrow> HttpClient \<Rightarrow> World \<Rightarrow> (thrown + string) \<times> World" where
  "getValidToken config http w =
     (let now = clock w in
      if token_fresh config now (cached w) then (Inr (cachedAccessToken (the (cached w))), w)
      else
        (case requestToken config http w of
           (Inl err, w') \<Rightarrow> (Inl err, w')
         | (Inr result, w') \<Rightarrow>
             (Inr (accessToken result),
              w'\<lparr>cached := Some \<lparr>cachedAccessToken = accessToken result,
                                 expiresAtMs = now + expiresInSeconds result * 1000\<rparr>\<rparr>)))"

definition clearCache :: "World \<Rightarrow> World" where
  "clearCache w = w\<lparr>cached := None\<rparr>"

section \<open>Carrier client\<close>

definition UPS_RATING_PATH :: string where
  "UPS_RATING_PATH = ''/api/ratings/v1/Shop''"

definition UPS_RATE_VERSION :: string where
  "UPS_RATE_VERSION = ''v1''"

text \<open>
  Reading a named property, and the element \<open>[0]\<close>, of a value that is neither null nor
  undefined. The names read here (\<open>response\<close>, \<open>errors\<close>, \<open>code\<close>) exist on plain
  objects only.
\<close>

definition js_get :: "jsval \<Rightarrow> string \<Rightarrow> jsval" where
  "js_get v k = (case v of JObj kvs \<Rightarrow> field kvs k | _ \<Rightarrow> JUndefined)"

definition js_index0 :: "jsval \<Rightarrow> jsval" where
  "js_index0 v =
     (case v of
        JArr vs \<Rightarrow> (case vs of [] \<Rightarrow> JUndefined | x # _ \<Rightarrow> x)
      | JObj kvs \<Rightarrow> field kvs ''0''
      | JStr s \<Rightarrow> (case s of [] \<Rightarrow> JUndefined | c # _ \<Rightarrow> JStr [c])
      | _ \<Rightarrow> JUndefined)"

text \<open>Optional chaining \<open>v?.\<close> on a raw value.\<close>

definition js_opt :: "jsval \<Rightarrow> (jsval \<Rightarrow> jsval) \<Rightarrow> jsval" where
  "js_opt v f = (case v of JUndefined \<Rightarrow> JUndefined | JNull \<Rightarrow> JUndefined | _ \<Rightarrow> f v)"

definition tryGetCarrierErrorCode :: "jsval \<Rightarrow> string option" where
  "tryGetCarrierErrorCode b =
     (if (case b of JObj _ \<Rightarrow> True | JArr _ \<Rightarrow> True | _ \<Rightarrow> False) then
        (let response = js_get b ''response'';
             cd = js_opt (js_opt (js_opt response (\<lambda>r. js_get r ''errors'')) js_index0)
                    (\<lambda>e. js_get e ''code'')
         in case cd of JStr c \<Rightarrow> Some c | _ \<Rightarrow> None)
      else None)"

definition rateRequest :: "UpsConfig \<Rightarrow> string \<Rightarrow> RateRequest \<Rightarrow> HttpRequest" where
  "rateRequest config token req =
     \<lparr>http_method = ''POST'',
      url = apiBaseUrl config @ UPS_RATING_PATH @ ''?'' @ ''version='' @ UPS_RATE_VERSION,
      contentType = ''application/json'',
      authorization = Bearer token,
      merchantId = None,
      request_body = JsonBody (buildUpsRateRequest req),
      timeoutMs = requestTimeoutMs config\<rparr>"

text \<open>The branches of \<open>UpsRateClient.getRates\<close> on the response of the rate call.\<close>

definition getRates_response :: "HttpResponse \<Rightarrow> thrown + RateResponse" where
  "getRates_response res =
     (if status res = 401 then
        Inl (CarrierIntegrationError AUTH_TOKEN_EXPIRED
               ''UPS rate request unauthorized (401); token may have expired''
               (Some 401) None None None)
      else if status res = 429 then
        Inl (CarrierIntegrationError RATE_LIMITED ''UPS rate limited (429)''
               (Some 429) None None None)
      else if status res \<ge> 400 then
        Inl (CarrierIntegrationError CARRIER_ERROR
               (''UPS rate request failed: HTTP '' @ int_to_string (status res))
               (Some (status res)) (tryGetCarrierErrorCode (body res))
               (Some [(''body'', body res)]) None)
      else parseUpsRateResponse (body res) ''ups'')"

text \<open>
  \<open>UpsRateClient.getRates\<close>, with \<open>getToken\<close> bound to \<open>getValidToken\<close> as the carrier
  does. A rejection of the transport is not caught here.
\<close>

definition UpsRateClient_getRates ::
  "UpsConfig \<Rightarrow> HttpClient \<Rightarrow> RateRequest \<Rightarrow> World \<Rightarrow> (thrown + RateResponse) \<times> World" where
  "UpsRateClient_getRates config http req w =
     (case getValidToken config http w of
        (Inl err, w1) \<Rightarrow> (Inl err, w1)
      | (Inr token, w1) \<Rightarrow>
          (case http_request http (rateRequest config token req) w1 of
             (Rejected err, w2) \<Rightarrow> (Inl err, w2)
           | (Resolved res, w2) \<Rightarrow> (getRates_response res, w2)))"

section \<open>Carriers and operations\<close>

datatype CarrierOperation = rate | label | tracking | address_validation

datatype OperationInput =
    RateInput RateRequest
  | LabelInput jsval
  | TrackingInput jsval
  | AddressValidationInput jsval

datatype OperationResult =
    RateResult RateResponse
  | LabelResult jsval
  | TrackingResult jsval
  | AddressValidationResult jsval

definition input_operation :: "OperationInput \<Rightarrow> CarrierOperation" where
  "input_operation op =
     (case op of RateInput _ \<Rightarrow> rate | LabelInput _ \<Rightarrow> label | TrackingInput _ \<Rightarrow> tracking
      | AddressValidationInput _ \<Rightarrow> address_validation)"

definition result_operation :: "OperationResult \<Rightarrow> CarrierOperation" where
  "result_operation r =
     (case r of RateResult _ \<Rightarrow> rate | LabelResult _ \<Rightarrow> label | TrackingResult _ \<Rightarrow> tracking
      | AddressValidationResult _ \<Rightarrow> address_validation)"

definition operation_name :: "CarrierOperation \<Rightarrow> string" where
  "operation_name op =
     (case op of rate \<Rightarrow> ''rate'' | label \<Rightarrow> ''label'' | tracking \<Rightarrow> ''tracking''
      | address_validation \<Rightarrow> ''address_validation'')"

definition isRateInput :: "OperationInput \<Rightarrow> bool" where
  "isRateInput op = (input_operation op = rate)"

text \<open>A carrier integration over a state \<open>'w\<close> that its \<open>execute\<close> may change.\<close>

record 'w CarrierIntegration =
  carrierId :: string
  supportedOperations :: "CarrierOperation list"
  execute :: "OperationInput \<Rightarrow> 'w \<Rightarrow> (thrown + OperationResult) \<times> 'w"

definition SUPPORTED_OPERATIONS :: "CarrierOperation list" where
  "SUPPORTED_OPERATIONS = [rate]"

definition UpsCarrier_execute ::
  "UpsConfig \<Rightarrow> HttpClient \<Rightarrow> OperationInput \<Rightarrow> World \<Rightarrow> (thrown + OperationResult) \<times> World" where
  "UpsCarrier_execute config http inp w =
     (case inp of
        RateInput req \<Rightarrow>
          (case UpsRateClient_getRates config http req w of
             (Inl err, w') \<Rightarrow> (Inl err, w')
           | (Inr result, w') \<Rightarrow> (Inr (RateResult result), w'))
      | _ \<Rightarrow>
          (Inl (CarrierIntegrationError VALIDATION_ERROR
                  (''UPS does not support operation: '' @ operation_name (input_operation inp))
                  None None
                  (Some [(''carrierId'', JStr ''ups''),
                         (''supported'', JArr (map (JStr \<circ> operation_name) SUPPORTED_OPERATIONS))])
                  None), w))"

definition UpsCarrier :: "UpsConfig \<Rightarrow> HttpClient \<Rightarrow> World CarrierIntegration" where
  "UpsCarrier config http =
     \<lparr>carrierId = ''ups'',
      supportedOperations = SUPPORTED_OPERATIONS,
      execute = UpsCarrier_execute config http\<rparr>"

section \<open>Dispatcher\<close>

text \<open>
  The registry is \<open>new Map(carriers.map(c => [c.carrierId, c]))\<close>: of two carriers with one
  id the later one is kept, and the keys are listed in order of first appearance.
\<close>

definition carriers_get :: "'w CarrierIntegration list \<Rightarrow> string \<Rightarrow> 'w CarrierIntegration option" where
  "carriers_get cs k =
     (case filter (\<lambda>c. carrierId c = k) cs of [] \<Rightarrow> None | x # xs \<Rightarrow> Some (last (x # xs)))"

definition carriers_keys :: "'w CarrierIntegration list \<Rightarrow> string list" where
  "carriers_keys cs = rev (remdups (rev (map carrierId cs)))"

text \<open>The \<open>catch\<close> block of \<open>CarrierIntegrationService.getRates\<close>.\<close>

definition getRates_catch :: "thrown \<Rightarrow> thrown" where
  "getRates_catch err =
     (if isCarrierIntegrationError err then err
      else CarrierIntegrationError UNKNOWN
             (if instanceof_Error err then message_of err else ''Carrier request failed'')
             None None None (Some err))"

text \<open>
  \<open>CarrierIntegrationService.getRates\<close>. The issue text of a failed validation and the
  \<open>errors\<close> entry of its context come from the validation library and are left out.
\<close>

definition getRates ::
  "'w CarrierIntegration list \<Rightarrow> string \<Rightarrow> jsval \<Rightarrow> 'w \<Rightarrow> (thrown + RateResponse) \<times> 'w" where
  "getRates cs cid request w =
     (case carriers_get cs cid of
        None \<Rightarrow>
          (Inl (CarrierIntegrationError VALIDATION_ERROR (''Unknown carrier: '' @ cid) None None
                  (Some [(''availableCarriers'', JArr (map JStr (carriers_keys cs)))]) None), w)
      | Some c \<Rightarrow>
          if rate \<notin> set (supportedOperations c) then
            (Inl (CarrierIntegrationError VALIDATION_ERROR
                    (''Carrier '' @ cid @ '' does not support rate shopping'')
                    None None None None), w)
          else
            (case RateRequestSchema request of
               None \<Rightarrow>
                 (Inl (CarrierIntegrationError VALIDATION_ERROR ''Invalid rate request: ''
                         None None (Some []) None), w)
             | Some validatedRequest \<Rightarrow>
                 (case execute c (RateInput validatedRequest) w of
                    (Inl err, w') \<Rightarrow> (Inl (getRates_catch err), w')
                  | (Inr result, w') \<Rightarrow>
                      (case result of
                         RateResult r \<Rightarrow> (Inr r, w')
                       | _ \<Rightarrow>
                           (Inl (getRates_catch
                                   (CarrierIntegrationError UNKNOWN
                                      ''Unexpected result type from carrier''
                                      None None None None)), w')))))"

definition getCarriersWithRates :: "'w CarrierIntegration list \<Rightarrow> string list" where
  "getCarriersWithRates cs =
     map carrierId
       (filter (\<lambda>c. rate \<in> set (supportedOperations c))
          (concat (map (\<lambda>k. case carriers_get cs k of None \<Rightarrow> [] | Some c \<Rightarrow> [c])
                     (carriers_keys cs))))"

section \<open>Properties of numbers and quotes\<close>





text \<open>
  What the data model says of a package: \<open>length\<close>, \<open>width\<close> and \<open>height\<close> are all
  present or all absent.
\<close>

definition dimensions_all_or_none :: "Package \<Rightarrow> bool" where
  "dimensions_all_or_none p =
     ((length' p = None \<and> width p = None \<and> height p = None) \<or>
      (length' p \<noteq> None \<and> width p \<noteq> None \<and> height p \<noteq> None))"


text \<open>A result that is a failure with a structured error of the given kind and status.\<close>

definition raised :: "ErrorCode \<Rightarrow> int option \<Rightarrow> thrown + 'a \<Rightarrow> bool" where
  "raised k st r =
     (case r of
        Inl e \<Rightarrow> isCarrierIntegrationError e \<and> code e = k \<and> statusCode e = st
      | Inr _ \<Rightarrow> False)"

section \<open>Synthetic response bodies\<close>

text \<open>The fields of a quote as the strings a carrier would send.\<close>

record QuoteStrings =
  q_serviceCode :: string
  q_serviceName :: string
  q_totalCharge :: string
  q_currencyCode :: string
  q_transitDays :: string

text \<open>
  Modelled from the spec: \<open>buildSyntheticSuccessBody\<close>, which the source does not
  contain. It builds a success body from a list of quotes: the success status sentinel
  \<open>1\<close> and one rated-shipment element per quote, in order, each with all five fields.
\<close>

definition syntheticShipment :: "QuoteStrings \<Rightarrow> jsval" where
  "syntheticShipment q =
     JObj [(''Service'', JObj [(''Code'', JStr (q_serviceCode q)), (''Name'', JStr (q_serviceName q))]),
           (''TotalCharges'', JObj [(''MonetaryValue'', JStr (q_totalCharge q)),
                                    (''CurrencyCode'', JStr (q_currencyCode q))]),
           (''GuaranteedDelivery'', JObj [(''BusinessDaysInTransit'', JStr (q_transitDays q))])]"

definition buildSyntheticSuccessBody :: "QuoteStrings list \<Rightarrow> jsval" where
  "buildSyntheticSuccessBody qs =
     JObj [(''RateResponse'',
        JObj [(''Response'', JObj [(''ResponseStatus'',
                 JObj [(''Code'', JStr ''1''), (''Description'', JStr ''Success'')])]),
              (''RatedShipment'', JArr (map syntheticShipment qs))])]"

text \<open>
  Well-formed numeric strings: a decimal is a non-empty run of digits, optionally followed
  by a point and a non-empty run of digits; an integer is a non-empty run of digits.
\<close>

definition decimal_string :: "string \<Rightarrow> bool" where
  "decimal_string s =
     (let ip = takeWhile is_digit s; r = dropWhile is_digit s
      in ip \<noteq> [] \<and> (r = [] \<or> (hd r = CHR ''.'' \<and> tl r \<noteq> [] \<and> list_all is_digit (tl r))))"

definition integer_string :: "string \<Rightarrow> bool" where
  "integer_string s = (s \<noteq> [] \<and> list_all is_digit s)"

definition well_formed_quote :: "QuoteStrings \<Rightarrow> bool" where
  "well_formed_quote q = (decimal_string (q_totalCharge q) \<and> integer_string (q_transitDays q))"

text \<open>The number a decimal string denotes: its integer part plus its fraction.\<close>

definition decimal_value :: "string \<Rightarrow> rat" where
  "decimal_value s =
     (let ip = takeWhile (\<lambda>c. c \<noteq> CHR ''.'') s; fp = drop (length ip + 1) s
      in of_nat (digits_val ip) + of_nat (digits_val fp) / 10 ^ length fp)"

text \<open>
  The quote that matches the strings field for field; the numbers are the doubles of the
  values the strings denote.
\<close>

definition expected_quote :: "string \<Rightarrow> QuoteStrings \<Rightarrow> RateQuote" where
  "expected_quote cid q =
     \<lparr>carrier = cid,
      serviceCode = q_serviceCode q,
      serviceName = q_serviceName q,
      totalCharge = to_double (decimal_value (q_totalCharge q)),
      currencyCode = q_currencyCode q,
      transitDays = Some (to_double (of_nat (digits_val (q_transitDays q)))),
      carrierServiceId = Some (q_serviceCode q)\<rparr>"

text \<open>The parsed form of a synthetic rated shipment.\<close>

definition syntheticShipment_parsed :: "QuoteStrings \<Rightarrow> UpsRatedShipment" where
  "syntheticShipment_parsed q =
     \<lparr>Service = Some \<lparr>svc_Code = Some (q_serviceCode q), svc_Name = Some (q_serviceName q)\<rparr>,
      TotalCharges = Some \<lparr>MonetaryValue = Some (q_totalCharge q),
                            CurrencyCode = Some (q_currencyCode q)\<rparr>,
      GuaranteedDelivery = Some \<lparr>BusinessDaysInTransit = Some (q_transitDays q)\<rparr>\<rparr>"

section \<open>Example inputs\<close>

definition unparsable_shipment :: UpsRatedShipment where
  "unparsable_shipment =
     \<lparr>Service = None,
      TotalCharges = Some \<lparr>MonetaryValue = Some ''abc'', CurrencyCode = None\<rparr>,
      GuaranteedDelivery = Some \<lparr>BusinessDaysInTransit = Some ''soon''\<rparr>\<rparr>"

definition no_service_body :: jsval where
  "no_service_body =
     JObj [(''RateResponse'', JObj [(''RatedShipment'',
        JArr [JObj [(''TotalCharges'', JObj [(''MonetaryValue'', JStr ''7'')])]])])]"

definition no_service_response :: RateResponse where
  "no_service_response =
     \<lparr>quotes = [\<lparr>carrier = ''ups'', serviceCode = ''UNKNOWN'', serviceName = ''UNKNOWN'',
                  totalCharge = Fin 7, currencyCode = ''USD'', transitDays = None,
                  carrierServiceId = Some ''UNKNOWN''\<rparr>],
      requestId = None\<rparr>"



definition partial_package_json :: jsval where
  "partial_package_json = JObj [(''weight'', JNum 5), (''length'', JNum 10)]"

definition partial_package :: Package where
  "partial_package =
     \<lparr>weight = 5, weightUnit = LBS, length' = Some 10, width = None, height = None,
      dimensionUnit = IN\<rparr>"

definition sample_origin_json :: jsval where
  "sample_origin_json =
     JObj [(''line1'', JStr ''123 Origin St''), (''city'', JStr ''Atlanta''),
           (''stateProvinceCode'', JStr ''GA''), (''postalCode'', JStr ''30301''),
           (''countryCode'', JStr ''US'')]"

definition sample_origin :: Address where
  "sample_origin =
     \<lparr>line1 = ''123 Origin St'', line2 = None, line3 = None, city = ''Atlanta'',
      stateProvinceCode = Some ''GA'', postalCode = ''30301'', countryCode = ''US''\<rparr>"

definition sample_destination_json :: jsval where
  "sample_destination_json =
     JObj [(''line1'', JStr ''456 Dest Ave''), (''city'', JStr ''New York''),
           (''stateProvinceCode'', JStr ''NY''), (''postalCode'', JStr ''10001''),
           (''countryCode'', JStr ''US'')]"

definition sample_destination :: Address where
  "sample_destination =
     \<lparr>line1 = ''456 Dest Ave'', line2 = None, line3 = None, city = ''New York'',
      stateProvinceCode = Some ''NY'', postalCode = ''10001'', countryCode = ''US''\<rparr>"

definition partial_request_json :: jsval where
  "partial_request_json =
     JObj [(''origin'', sample_origin_json), (''destination'', sample_destination_json),
           (''packages'', JArr [partial_package_json])]"

definition partial_request :: RateRequest where
  "partial_request =
     \<lparr>origin = sample_origin, destination = sample_destination,
      packages = [partial_package], serviceCode_req = None\<rparr>"

definition test_config :: UpsConfig where
  "test_config =
     \<lparr>clientId = ''test_client'', clientSecret = ''test_secret'',
      apiBaseUrl = ''https://api.example.com'', oauthTokenUrl = ''https://auth.example.com/token'',
      requestTimeoutMs = 15000, oauthTimeoutMs = 10000, oauthRefreshBufferSeconds = 60\<rparr>"

definition UPS_OAUTH_SUCCESS :: jsval where
  "UPS_OAUTH_SUCCESS =
     JObj [(''access_token'', JStr ''test_token_abc123''), (''token_type'', JStr ''Bearer''),
           (''expires_in'', JNum 3600)]"


definition empty_world :: World where
  "empty_world = \<lparr>clock = 1000, cached = None, requests = []\<rparr>"

definition token_world :: World where
  "token_world =
     \<lparr>clock = 1000,
      cached = Some \<lparr>cachedAccessToken = ''test_token_abc123'', expiresAtMs = 3601000\<rparr>,
      requests = [tokenRequest test_config]\<rparr>"




definition sample_package_json :: jsval where
  "sample_package_json =
     JObj [(''weight'', JNum 5), (''weightUnit'', JStr ''LBS''), (''length'', JNum 10),
           (''width'', JNum 8), (''height'', JNum 6), (''dimensionUnit'', JStr ''IN'')]"

definition sample_package :: Package where
  "sample_package =
     \<lparr>weight = 5, weightUnit = LBS, length' = Some 10, width = Some 8, height = Some 6,
      dimensionUnit = IN\<rparr>"

definition SAMPLE_RATE_REQUEST_json :: jsval where
  "SAMPLE_RATE_REQUEST_json =
     JObj [(''origin'', sample_origin_json), (''destination'', sample_destination_json),
           (''packages'', JArr [sample_package_json])]"

definition SAMPLE_RATE_REQUEST :: RateRequest where
  "SAMPLE_RATE_REQUEST =
     \<lparr>origin = sample_origin, destination = sample_destination,
      packages = [sample_package], serviceCode_req = None\<rparr>"

definition invalid_request_body :: jsval where
  "invalid_request_body =
     JObj [(''response'', JObj [(''errors'', JArr [JObj [(''code'', JStr ''INVALID_REQUEST'')]])])]"

definition carrier_4xx_stub :: HttpClient where
  "carrier_4xx_stub =
     scriptedHttpClient
       [Resolved \<lparr>status = 200, headers = [], body = UPS_OAUTH_SUCCESS\<rparr>,
        Resolved \<lparr>status = 400, headers = [], body = invalid_request_body\<rparr>]"

definition network_failure_stub :: HttpClient where
  "network_failure_stub =
     scriptedHttpClient
       [Resolved \<lparr>status = 200, headers = [], body = UPS_OAUTH_SUCCESS\<rparr>,
        Rejected (Error ''Error'' ''fetch failed: timeout'')]"

definition network_failure_world :: World where
  "network_failure_world =
     token_world\<lparr>requests := [tokenRequest test_config,
                               rateRequest test_config ''test_token_abc123'' SAMPLE_RATE_REQUEST]\<rparr>"

definition carrier_4xx_world :: World where
  "carrier_4xx_world =
     token_world\<lparr>requests := [tokenRequest test_config,
                               rateRequest test_config ''test_token_abc123'' SAMPLE_RATE_REQUEST]\<rparr>"

definition carrier_4xx_error :: thrown where
  "carrier_4xx_error =
     CarrierIntegrationError CARRIER_ERROR ''UPS rate request failed: HTTP 400'' (Some 400)
       (Some ''INVALID_REQUEST'') (Some [(''body'', invalid_request_body)]) None"

definition ground_strings :: QuoteStrings where
  "ground_strings =
     \<lparr>q_serviceCode = ''03'', q_serviceName = ''Ground'', q_totalCharge = ''12.50'',
      q_currencyCode = ''USD'', q_transitDays = ''3''\<rparr>"

definition express_strings :: QuoteStrings where
  "express_strings =
     \<lparr>q_serviceCode = ''07'', q_serviceName = ''Worldwide Express'', q_totalCharge = ''24.99'',
      q_currencyCode = ''USD'', q_transitDays = ''1''\<rparr>"

definition ground_quote :: RateQuote where
  "ground_quote =
     \<lparr>carrier = ''ups'', serviceCode = ''03'', serviceName = ''Ground'',
      totalCharge = Fin (25 / 2), currencyCode = ''USD'', transitDays = Some (Fin 3),
      carrierServiceId = Some ''03''\<rparr>"

definition express_quote :: RateQuote where
  "express_quote =
     \<lparr>carrier = ''ups'', serviceCode = ''07'', serviceName = ''Worldwide Express'',
      totalCharge = Fin (2499 / 100), currencyCode = ''USD'', transitDays = Some (Fin 1),
      carrierServiceId = Some ''07''\<rparr>"

section \<open>Evaluation of the number conversions\<close>

lemma DBL_OVERFLOW_big: "2 ^ 64 \<le> DBL_OVERFLOW"
proof -
  have "(2::rat) ^ 1024 = 2 ^ 970 * 2 ^ 54" by (simp flip: power_add)
  then have "DBL_OVERFLOW = 2 ^ 970 * (2 ^ 54 - 1)" by (simp add: DBL_OVERFLOW_def algebra_simps)
  moreover have "(2::rat) ^ 64 \<le> 2 ^ 970" by (rule power_increasing) simp_all
  moreover have "(1::rat) \<le> 2 ^ 54 - 1" by simp
  ultimately show ?thesis
    by (metis mult.right_neutral mult_left_mono order_trans zero_le_numeral zero_le_power)
qed

lemma to_double_small: "\<bar>r\<bar> < 2 ^ 64 \<Longrightarrow> to_double r = Fin r"
  using DBL_OVERFLOW_big by (auto simp: to_double_def)

lemma to_double_not_NaN: "to_double r \<noteq> NaN"
  by (simp add: to_double_def)

lemmas num_eval =
  parseFloat_def parseInt10_def is_ws_def is_digit_def starts_with_def digits_val_def
  digit_val_def read_exponent_def pow10_def to_double_small Number_isNaN_def Let_def

lemmas schema_eval =
  UpsRateResponseSchema_def UpsRateResponseBodySchema_def UpsResponseSchema_def
  UpsResponseStatusSchema_def UpsRatedShipmentSchema_def UpsGuaranteedDeliverySchema_def
  UpsTotalChargesSchema_def UpsServiceSchema_def z_object_def z_array_def z_optional_def
  z_string_def field_def

lemmas parse_eval =
  parseUpsRateResponse_def ratedShipmentToQuote_def opt_chain_def nullish_def upsServiceName_def
  UPS_SERVICE_NAMES_def Let_def

section \<open>Wire mapper: numeric safety and defaults\<close>

text \<open>
  C2. For a rated shipment accepted by the response schema: when \<open>MonetaryValue\<close> is
  absent, empty, or not parsable by \<open>parseFloat\<close> (it yields NaN), the quote's
  \<open>totalCharge\<close> is exactly 0, and \<open>totalCharge\<close> is never NaN; when
  \<open>BusinessDaysInTransit\<close> is absent, empty, or not parsable by \<open>parseInt\<close>, the quote has
  no \<open>transitDays\<close> at all; when \<open>CurrencyCode\<close> is absent, \<open>currencyCode\<close> is \<open>USD\<close>.
\<close>

theorem absent_or_unparsable_fields_default:
  fixes s :: UpsRatedShipment and cid :: string
  defines "q \<equiv> ratedShipmentToQuote cid s"
  defines "mv \<equiv> opt_chain (TotalCharges s) MonetaryValue"
  defines "bd \<equiv> opt_chain (GuaranteedDelivery s) BusinessDaysInTransit"
  shows "(mv = None \<or> mv = Some [] \<or> (\<exists>t. mv = Some t \<and> parseFloat t = NaN)
            \<longrightarrow> totalCharge q = Fin 0)
       \<and> totalCharge q \<noteq> NaN
       \<and> (bd = None \<or> bd = Some [] \<or> (\<exists>t. bd = Some t \<and> parseInt10 t = NaN)
            \<longrightarrow> transitDays q = None)
       \<and> transitDays q \<noteq> Some NaN
       \<and> (opt_chain (TotalCharges s) CurrencyCode = None \<longrightarrow> currencyCode q = ''USD'')"
  unfolding q_def mv_def bd_def
  by (auto simp: ratedShipmentToQuote_def Let_def Number_isNaN_def nullish_def
           split: option.splits)

theorem absent_or_unparsable_fields_default_witness:
  "UpsRatedShipmentSchema
     (JObj [(''TotalCharges'', JObj [(''MonetaryValue'', JStr ''abc'')]),
            (''GuaranteedDelivery'', JObj [(''BusinessDaysInTransit'', JStr ''soon'')])])
     = Some unparsable_shipment
   \<and> parseFloat ''abc'' = NaN \<and> parseInt10 ''soon'' = NaN
   \<and> totalCharge (ratedShipmentToQuote ''ups'' unparsable_shipment) = Fin 0
   \<and> transitDays (ratedShipmentToQuote ''ups'' unparsable_shipment) = None
   \<and> currencyCode (ratedShipmentToQuote ''ups'' unparsable_shipment) = ''USD''"
proof -
  have pf: "parseFloat ''abc'' = NaN" by (simp add: num_eval)
  have pi: "parseInt10 ''soon'' = NaN" by (simp add: num_eval)
  have sch: "UpsRatedShipmentSchema
     (JObj [(''TotalCharges'', JObj [(''MonetaryValue'', JStr ''abc'')]),
            (''GuaranteedDelivery'', JObj [(''BusinessDaysInTransit'', JStr ''soon'')])])
     = Some unparsable_shipment"
    by (simp add: schema_eval unparsable_shipment_def)
  have mv: "opt_chain (TotalCharges unparsable_shipment) MonetaryValue = Some ''abc''"
    and bd: "opt_chain (GuaranteedDelivery unparsable_shipment) BusinessDaysInTransit = Some ''soon''"
    and cc: "opt_chain (TotalCharges unparsable_shipment) CurrencyCode = None"
    by (simp_all add: unparsable_shipment_def opt_chain_def)
  from absent_or_unparsable_fields_default [of unparsable_shipment "''ups''"] pf pi mv bd cc sch
  show ?thesis by simp
qed

section \<open>Wire mapper: shape of the parsed response\<close>

lemma parse_quotes_shape:
  assumes "parseUpsRateResponse b cid = Inr r"
  shows "\<exists>ss. quotes r = map (ratedShipmentToQuote cid) ss"
  using assms
  by (auto simp: parseUpsRateResponse_def Let_def split: option.splits if_splits)

text \<open>
  C9. A body that passes the response schema, holds a \<open>RateResponse\<close> object whose status
  code is absent, empty or the success sentinel \<open>1\<close>, and has no \<open>RatedShipment\<close> field or
  an empty \<open>RatedShipment\<close> array, parses successfully to a response with an empty list of
  quotes: it is not a \<open>MALFORMED_RESPONSE\<close>.
\<close>

theorem missing_rated_shipment_is_zero_quotes:
  assumes "UpsRateResponseSchema b = Some parsed"
    and "RateResponse parsed = Some rr"
    and "opt_chain (opt_chain (Response rr) ResponseStatus) status_Code \<in> {None, Some [], Some ''1''}"
    and "RatedShipment rr = None \<or> RatedShipment rr = Some []"
  shows "parseUpsRateResponse b cid = Inr \<lparr>quotes = [], requestId = None\<rparr>"
  using assms by (auto simp: parseUpsRateResponse_def nullish_def)

theorem missing_rated_shipment_is_zero_quotes_witness:
  "UpsRateResponseSchema (JObj [(''RateResponse'', JObj [])])
     = Some \<lparr>RateResponse = Some \<lparr>Response = None, RatedShipment = None\<rparr>\<rparr>
   \<and> parseUpsRateResponse (JObj [(''RateResponse'', JObj [])]) ''ups''
     = Inr \<lparr>quotes = [], requestId = None\<rparr>"
proof -
  have sch: "UpsRateResponseSchema (JObj [(''RateResponse'', JObj [])])
     = Some \<lparr>RateResponse = Some \<lparr>Response = None, RatedShipment = None\<rparr>\<rparr>"
    by (simp add: schema_eval)
  from missing_rated_shipment_is_zero_quotes
         [OF sch, of "\<lparr>Response = None, RatedShipment = None\<rparr>" "''ups''"]
  show ?thesis using sch by (simp add: opt_chain_def)
qed

text \<open>
  C10. In every quote that \<open>parseUpsRateResponse\<close> returns, \<open>carrierServiceId\<close> is present
  and equal to \<open>serviceCode\<close>; a shipment without a service code gets the sentinel
  \<open>UNKNOWN\<close> in both fields.
\<close>

theorem carrierServiceId_equals_serviceCode:
  assumes "parseUpsRateResponse b cid = Inr r"
  shows "(\<forall>q \<in> set (quotes r). carrierServiceId q = Some (serviceCode q))
       \<and> (\<forall>s. opt_chain (Service s) svc_Code = None \<longrightarrow>
                carrierServiceId (ratedShipmentToQuote cid s) = Some ''UNKNOWN''
              \<and> serviceCode (ratedShipmentToQuote cid s) = ''UNKNOWN'')"
proof -
  from parse_quotes_shape [OF assms] obtain ss
    where "quotes r = map (ratedShipmentToQuote cid) ss" ..
  then show ?thesis
    by (auto simp: ratedShipmentToQuote_def Let_def nullish_def)
qed

theorem carrierServiceId_equals_serviceCode_witness:
  "parseUpsRateResponse no_service_body ''ups'' = Inr no_service_response
   \<and> map carrierServiceId (quotes no_service_response) = [Some ''UNKNOWN'']
   \<and> map serviceCode (quotes no_service_response) = [''UNKNOWN'']"
proof -
  have ev: "parseUpsRateResponse no_service_body ''ups'' = Inr no_service_response"
    by (simp add: no_service_body_def no_service_response_def parse_eval schema_eval num_eval)
  from carrierServiceId_equals_serviceCode [OF ev] show ?thesis
    using ev by (simp add: no_service_response_def)
qed

section \<open>Wire mapper: sign and integrality of the numbers of a quote\<close>















section \<open>Domain validation: the dimensions of a package\<close>

lemmas domain_eval =
  PackageSchema_def AddressSchema_def RateRequestSchema_def z_object_def z_array_def
  z_array_min_def z_optional_def z_default_def z_enum_def z_string_def z_string_min_def
  z_string_max_def z_string_length_def z_number_positive_def field_def

lemma z_number_positive_Some: "z_number_positive v = Some r \<Longrightarrow> 0 < r"
  by (auto simp: z_number_positive_def split: jsval.splits if_splits)

lemma z_optional_Some_Some: "z_optional f v = Some (Some r) \<Longrightarrow> f v = Some r"
  by (auto simp: z_optional_def split: jsval.splits)

lemma PackageSchema_fields:
  assumes "PackageSchema v = Some p"
  obtains kvs where "v = JObj kvs"
    and "z_number_positive (field kvs ''weight'') = Some (weight p)"
    and "z_optional z_number_positive (field kvs ''length'') = Some (length' p)"
    and "z_optional z_number_positive (field kvs ''width'') = Some (width p)"
    and "z_optional z_number_positive (field kvs ''height'') = Some (height p)"
  using assms
  by (auto simp: PackageSchema_def z_object_def bind_eq_Some_conv split: jsval.splits)

lemma partial_package_accepted: "PackageSchema partial_package_json = Some partial_package"
  by (simp add: partial_package_json_def partial_package_def domain_eval)

text \<open>
  C3, as stated, fails: a package with a weight and a length only passes the package
  schema, and a request holding it passes the request schema of the dispatcher.
\<close>

theorem partial_dimensions_counterexample:
  "PackageSchema partial_package_json = Some partial_package
   \<and> RateRequestSchema partial_request_json = Some partial_request
   \<and> \<not> dimensions_all_or_none partial_package"
proof -
  have "AddressSchema sample_origin_json = Some sample_origin"
    by (simp add: sample_origin_json_def sample_origin_def domain_eval)
  moreover have "AddressSchema sample_destination_json = Some sample_destination"
    by (simp add: sample_destination_json_def sample_destination_def domain_eval)
  ultimately have "RateRequestSchema partial_request_json = Some partial_request"
    using partial_package_accepted
    by (simp add: partial_request_json_def partial_request_def RateRequestSchema_def
          z_object_def z_array_min_def z_array_def z_optional_def field_def)
  moreover have "\<not> dimensions_all_or_none partial_package"
    by (simp add: partial_package_def dimensions_all_or_none_def)
  ultimately show ?thesis using partial_package_accepted by simp
qed

text \<open>
  C3, amended. A package accepted by the domain validation has a positive weight and may
  carry any subset of \<open>length\<close>, \<open>width\<close> and \<open>height\<close>, each one present being a positive
  number; the request sent to the carrier holds a dimensions block exactly when all three
  are present, so a package with only some of them is accepted and sent without dimensions.
\<close>

theorem package_dimensions_amended:
  assumes "PackageSchema v = Some p"
  shows "0 < weight p
       \<and> (\<forall>d. length' p = Some d \<longrightarrow> 0 < d)
       \<and> (\<forall>d. width p = Some d \<longrightarrow> 0 < d)
       \<and> (\<forall>d. height p = Some d \<longrightarrow> 0 < d)
       \<and> (Dimensions (toUpsPackage p) \<noteq> None
            \<longleftrightarrow> length' p \<noteq> None \<and> width p \<noteq> None \<and> height p \<noteq> None)"
proof -
  from assms obtain kvs where
        w: "z_number_positive (field kvs ''weight'') = Some (weight p)"
    and l: "z_optional z_number_positive (field kvs ''length'') = Some (length' p)"
    and wd: "z_optional z_number_positive (field kvs ''width'') = Some (width p)"
    and h: "z_optional z_number_positive (field kvs ''height'') = Some (height p)"
    by (rule PackageSchema_fields)
  have "0 < weight p" using w by (rule z_number_positive_Some)
  moreover have "\<forall>d. length' p = Some d \<longrightarrow> 0 < d"
    using l by (auto dest!: z_optional_Some_Some z_number_positive_Some)
  moreover have "\<forall>d. width p = Some d \<longrightarrow> 0 < d"
    using wd by (auto dest!: z_optional_Some_Some z_number_positive_Some)
  moreover have "\<forall>d. height p = Some d \<longrightarrow> 0 < d"
    using h by (auto dest!: z_optional_Some_Some z_number_positive_Some)
  moreover have "Dimensions (toUpsPackage p) \<noteq> None
            \<longleftrightarrow> length' p \<noteq> None \<and> width p \<noteq> None \<and> height p \<noteq> None"
    by (simp add: toUpsPackage_def Let_def)
  ultimately show ?thesis by blast
qed

theorem package_dimensions_amended_witness:
  "PackageSchema partial_package_json = Some partial_package
   \<and> length' partial_package = Some 10 \<and> width partial_package = None
   \<and> Dimensions (toUpsPackage partial_package) = None
   \<and> 0 < weight partial_package"
proof -
  have ev: "PackageSchema partial_package_json = Some partial_package"
    by (simp add: partial_package_json_def partial_package_def domain_eval)
  from package_dimensions_amended [OF ev] show ?thesis
    using ev by (simp add: partial_package_def)
qed

section \<open>Token cache: caching and refresh\<close>


lemmas oauth_eval =
  requestToken_def requestToken_response_def requestToken_catch_def http_request_def
  scriptedHttpClient_def UpsOAuthTokenResponseSchema_def z_object_def z_optional_def
  z_default_def z_string_def z_string_min_def z_number_int_positive_def field_def
  refreshBufferMs_def token_fresh_def




section \<open>Token cache: failures of the acquisition\<close>





lemma requestToken_response_is_CIE:
  "requestToken_response config res = Inl e \<Longrightarrow> isCarrierIntegrationError e"
  by (auto simp: requestToken_response_def isCarrierIntegrationError_def
           split: if_splits option.splits)





section \<open>Carrier client: status of the rate call\<close>

lemma getRates_response_eq:
  assumes "getValidToken config http w = (Inr token, w1)"
    and "http (requests w1) (rateRequest config token req) = Resolved res"
  shows "fst (UpsRateClient_getRates config http req w) = getRates_response res"
  using assms by (simp add: UpsRateClient_getRates_def http_request_def)

lemma tryGetCarrierErrorCode_present:
  assumes "field kvs ''response'' = JObj rs" and "field rs ''errors'' = JArr (JObj es # rest)"
    and "field es ''code'' = JStr c"
  shows "tryGetCarrierErrorCode (JObj kvs) = Some c"
  using assms by (simp add: tryGetCarrierErrorCode_def js_get_def js_opt_def js_index0_def)

lemma tryGetCarrierErrorCode_absent:
  assumes "field kvs ''response'' = JUndefined
         \<or> (\<exists>rs. field kvs ''response'' = JObj rs
                \<and> (field rs ''errors'' = JUndefined \<or> field rs ''errors'' = JArr []
                    \<or> (\<exists>es rest. field rs ''errors'' = JArr (JObj es # rest)
                          \<and> field es ''code'' = JUndefined)))"
  shows "tryGetCarrierErrorCode (JObj kvs) = None"
  using assms by (auto simp: tryGetCarrierErrorCode_def js_get_def js_opt_def js_index0_def)

text \<open>
  C5. Once the token is at hand and the transport has answered the rate call: status 401
  raises \<open>AUTH_TOKEN_EXPIRED\<close> with status 401, 429 raises \<open>RATE_LIMITED\<close>, any other
  status from 400 on raises \<open>CARRIER_ERROR\<close> with that status and the carrier code that
  \<open>tryGetCarrierErrorCode\<close> finds in the body, and any status below 400 hands the body to
  \<open>parseUpsRateResponse\<close>. The carrier code of a body of shape
  \<open>{response: {errors: [{code}]}}\<close> is that code, and there is none when the response, the
  errors, the first error or its code is absent.
\<close>

theorem rate_call_status_mapping:
  fixes config :: UpsConfig and http :: HttpClient and w :: World and req :: RateRequest
  assumes "getValidToken config http w = (Inr token, w1)"
    and "http (requests w1) (rateRequest config token req) = Resolved res"
  defines "r \<equiv> fst (UpsRateClient_getRates config http req w)"
  shows "(status res = 401 \<longrightarrow> raised AUTH_TOKEN_EXPIRED (Some 401) r)
       \<and> (status res = 429 \<longrightarrow> raised RATE_LIMITED (Some 429) r)
       \<and> (400 \<le> status res \<and> status res \<noteq> 401 \<and> status res \<noteq> 429 \<longrightarrow>
            raised CARRIER_ERROR (Some (status res)) r
          \<and> (\<exists>e. r = Inl e \<and> carrierCode e = tryGetCarrierErrorCode (body res)))
       \<and> (status res < 400 \<longrightarrow> r = parseUpsRateResponse (body res) ''ups'')
       \<and> (\<forall>kvs rs es rest c.
             field kvs ''response'' = JObj rs \<and> field rs ''errors'' = JArr (JObj es # rest)
             \<and> field es ''code'' = JStr c \<longrightarrow> tryGetCarrierErrorCode (JObj kvs) = Some c)
       \<and> (\<forall>kvs. field kvs ''response'' = JUndefined
               \<or> (\<exists>rs. field kvs ''response'' = JObj rs
                     \<and> (field rs ''errors'' = JUndefined \<or> field rs ''errors'' = JArr []
                         \<or> (\<exists>es rest. field rs ''errors'' = JArr (JObj es # rest)
                               \<and> field es ''code'' = JUndefined)))
             \<longrightarrow> tryGetCarrierErrorCode (JObj kvs) = None)"
proof -
  have r: "r = getRates_response res"
    unfolding r_def using assms(1,2) by (rule getRates_response_eq)
  have "status res = 401 \<longrightarrow> raised AUTH_TOKEN_EXPIRED (Some 401) r"
    by (simp add: r getRates_response_def raised_def isCarrierIntegrationError_def)
  moreover have "status res = 429 \<longrightarrow> raised RATE_LIMITED (Some 429) r"
    by (simp add: r getRates_response_def raised_def isCarrierIntegrationError_def)
  moreover have "400 \<le> status res \<and> status res \<noteq> 401 \<and> status res \<noteq> 429 \<longrightarrow>
            raised CARRIER_ERROR (Some (status res)) r
          \<and> (\<exists>e. r = Inl e \<and> carrierCode e = tryGetCarrierErrorCode (body res))"
    by (simp add: r getRates_response_def raised_def isCarrierIntegrationError_def)
  moreover have "status res < 400 \<longrightarrow> r = parseUpsRateResponse (body res) ''ups''"
    by (simp add: r getRates_response_def)
  ultimately show ?thesis
    using tryGetCarrierErrorCode_present tryGetCarrierErrorCode_absent by blast
qed

lemma sample_request_accepted: "RateRequestSchema SAMPLE_RATE_REQUEST_json = Some SAMPLE_RATE_REQUEST"
proof -
  have "AddressSchema sample_origin_json = Some sample_origin"
    by (simp add: sample_origin_json_def sample_origin_def domain_eval)
  moreover have "AddressSchema sample_destination_json = Some sample_destination"
    by (simp add: sample_destination_json_def sample_destination_def domain_eval)
  moreover have "PackageSchema sample_package_json = Some sample_package"
    by (simp add: sample_package_json_def sample_package_def domain_eval)
  ultimately show ?thesis
    by (simp add: SAMPLE_RATE_REQUEST_json_def SAMPLE_RATE_REQUEST_def RateRequestSchema_def
          z_object_def z_array_min_def z_array_def z_optional_def field_def)
qed

lemma token_call_4xx:
  "getValidToken test_config carrier_4xx_stub empty_world = (Inr ''test_token_abc123'', token_world)"
  by (simp add: getValidToken_def oauth_eval carrier_4xx_stub_def empty_world_def token_world_def
        UPS_OAUTH_SUCCESS_def test_config_def tokenRequest_def Let_def)

theorem rate_call_status_mapping_witness:
  "getValidToken test_config carrier_4xx_stub empty_world = (Inr ''test_token_abc123'', token_world)
   \<and> carrier_4xx_stub (requests token_world)
        (rateRequest test_config ''test_token_abc123'' SAMPLE_RATE_REQUEST)
      = Resolved \<lparr>status = 400, headers = [], body = invalid_request_body\<rparr>
   \<and> raised CARRIER_ERROR (Some 400)
        (fst (UpsRateClient_getRates test_config carrier_4xx_stub SAMPLE_RATE_REQUEST empty_world))
   \<and> (\<exists>e. fst (UpsRateClient_getRates test_config carrier_4xx_stub SAMPLE_RATE_REQUEST empty_world) = Inl e
          \<and> carrierCode e = Some ''INVALID_REQUEST'')"
proof -
  have rq: "carrier_4xx_stub (requests token_world)
        (rateRequest test_config ''test_token_abc123'' SAMPLE_RATE_REQUEST)
      = Resolved \<lparr>status = 400, headers = [], body = invalid_request_body\<rparr>"
    by (simp add: carrier_4xx_stub_def scriptedHttpClient_def token_world_def)
  have cc: "tryGetCarrierErrorCode invalid_request_body = Some ''INVALID_REQUEST''"
    by (simp add: invalid_request_body_def tryGetCarrierErrorCode_def js_get_def js_opt_def
          js_index0_def field_def)
  from rate_call_status_mapping [OF token_call_4xx rq] cc token_call_4xx rq
  show ?thesis by simp
qed

section \<open>Dispatcher: failures of the carrier\<close>

text \<open>
  C8. A failure raised by the carrier during \<open>getRates\<close> of the dispatcher: a structured
  error reaches the caller unchanged; any other \<open>Error\<close> is wrapped as \<open>UNKNOWN\<close> with
  the message of the original and the original as cause; a thrown value that is not an
  \<open>Error\<close> is wrapped as \<open>UNKNOWN\<close> with the message \<open>Carrier request failed\<close>.
\<close>

theorem getRates_error_propagation:
  assumes "carriers_get cs cid = Some c"
    and "rate \<in> set (supportedOperations c)"
    and "RateRequestSchema request = Some validatedRequest"
    and "execute c (RateInput validatedRequest) w = (Inl err, w')"
  shows "(isCarrierIntegrationError err \<longrightarrow> getRates cs cid request w = (Inl err, w'))
       \<and> (\<forall>n m. err = Error n m \<longrightarrow>
             getRates cs cid request w
               = (Inl (CarrierIntegrationError UNKNOWN m None None None (Some err)), w'))
       \<and> (\<forall>v. err = ThrownValue v \<longrightarrow>
             getRates cs cid request w
               = (Inl (CarrierIntegrationError UNKNOWN ''Carrier request failed'' None None None
                         (Some err)), w'))"
  using assms
  by (auto simp: getRates_def getRates_catch_def isCarrierIntegrationError_def
        instanceof_Error_def message_of_def)

lemma token_call_network_failure:
  "getValidToken test_config network_failure_stub empty_world = (Inr ''test_token_abc123'', token_world)"
  by (simp add: getValidToken_def oauth_eval network_failure_stub_def empty_world_def token_world_def
        UPS_OAUTH_SUCCESS_def test_config_def tokenRequest_def Let_def)

lemma rate_call_network_failure:
  "network_failure_stub (requests token_world) rq = Rejected (Error ''Error'' ''fetch failed: timeout'')"
  by (simp add: network_failure_stub_def scriptedHttpClient_def token_world_def)

lemma execute_network_failure:
  "execute (UpsCarrier test_config network_failure_stub) (RateInput SAMPLE_RATE_REQUEST) empty_world
     = (Inl (Error ''Error'' ''fetch failed: timeout''), network_failure_world)"
  by (simp add: UpsCarrier_def UpsCarrier_execute_def UpsRateClient_getRates_def
        token_call_network_failure http_request_def rate_call_network_failure
        network_failure_world_def)
        (simp add: token_world_def)

lemma rate_call_4xx:
  "carrier_4xx_stub (requests token_world) rq
     = Resolved \<lparr>status = 400, headers = [], body = invalid_request_body\<rparr>"
  by (simp add: carrier_4xx_stub_def scriptedHttpClient_def token_world_def)

lemma int_to_string_400: "int_to_string 400 = ''400''"
  by (simp add: int_to_string_def nat_to_string.simps)

lemma carrier_code_4xx: "tryGetCarrierErrorCode invalid_request_body = Some ''INVALID_REQUEST''"
  by (simp add: invalid_request_body_def tryGetCarrierErrorCode_def js_get_def js_opt_def
        js_index0_def field_def)

lemma execute_4xx:
  "execute (UpsCarrier test_config carrier_4xx_stub) (RateInput SAMPLE_RATE_REQUEST) empty_world
     = (Inl carrier_4xx_error, carrier_4xx_world)"
  by (simp add: UpsCarrier_def UpsCarrier_execute_def UpsRateClient_getRates_def
        token_call_4xx http_request_def rate_call_4xx getRates_response_def int_to_string_400
        carrier_code_4xx carrier_4xx_world_def carrier_4xx_error_def)
     (simp add: token_world_def)

theorem getRates_error_propagation_witness:
  "carriers_get [UpsCarrier test_config network_failure_stub] ''ups''
     = Some (UpsCarrier test_config network_failure_stub)
   \<and> RateRequestSchema SAMPLE_RATE_REQUEST_json = Some SAMPLE_RATE_REQUEST
   \<and> execute (UpsCarrier test_config network_failure_stub) (RateInput SAMPLE_RATE_REQUEST) empty_world
     = (Inl (Error ''Error'' ''fetch failed: timeout''), network_failure_world)
   \<and> getRates [UpsCarrier test_config network_failure_stub] ''ups'' SAMPLE_RATE_REQUEST_json empty_world
     = (Inl (CarrierIntegrationError UNKNOWN ''fetch failed: timeout'' None None None
               (Some (Error ''Error'' ''fetch failed: timeout''))), network_failure_world)
   \<and> execute (UpsCarrier test_config carrier_4xx_stub) (RateInput SAMPLE_RATE_REQUEST) empty_world
     = (Inl carrier_4xx_error, carrier_4xx_world)
   \<and> getRates [UpsCarrier test_config carrier_4xx_stub] ''ups'' SAMPLE_RATE_REQUEST_json empty_world
     = (Inl carrier_4xx_error, carrier_4xx_world)"
proof -
  have g: "carriers_get [UpsCarrier test_config http] ''ups'' = Some (UpsCarrier test_config http)"
    for http by (simp add: carriers_get_def UpsCarrier_def)
  have s: "rate \<in> set (supportedOperations (UpsCarrier test_config http))" for http
    by (simp add: UpsCarrier_def SUPPORTED_OPERATIONS_def)
  have c: "isCarrierIntegrationError carrier_4xx_error"
    by (simp add: carrier_4xx_error_def isCarrierIntegrationError_def)
  from getRates_error_propagation [OF g s sample_request_accepted execute_network_failure]
    getRates_error_propagation [OF g s sample_request_accepted execute_4xx] c
  show ?thesis using g sample_request_accepted execute_network_failure execute_4xx by simp
qed

section \<open>Wire mapper: round trip of a synthetic body\<close>

lemma is_digit_chars:
  assumes "is_digit c"
  shows "\<not> is_ws c" "c \<noteq> CHR ''-''" "c \<noteq> CHR ''+''" "c \<noteq> CHR ''.''" "c \<noteq> CHR ''I''"
  using assms by (auto simp: is_digit_def is_ws_def)

lemma not_digit_dot: "\<not> is_digit CHR ''.''"
  by (simp add: is_digit_def)

lemma digits_head:
  assumes "ds \<noteq> []" and "list_all is_digit ds"
  shows "dropWhile is_ws (ds @ r) = ds @ r"
    and "read_sign (ds @ r) = (1, ds @ r)"
    and "\<not> starts_with (ds @ r) ''Infinity''"
  using assms is_digit_chars by (cases ds; auto simp: starts_with_def)+

lemma decimal_string_shape:
  assumes "decimal_string s"
  obtains ip where "ip \<noteq> []" "list_all is_digit ip" "s = ip"
  | ip fp where "ip \<noteq> []" "list_all is_digit ip" "fp \<noteq> []" "list_all is_digit fp"
      "s = ip @ CHR ''.'' # fp"
proof -
  let ?ip = "takeWhile is_digit s" and ?r = "dropWhile is_digit s"
  have s: "s = ?ip @ ?r" by simp
  have ip: "?ip \<noteq> []" "list_all is_digit ?ip"
    using assms by (auto simp: decimal_string_def Let_def list_all_iff dest: set_takeWhileD)
  show thesis
  proof (cases "?r = []")
    case True
    with s ip that(1) show thesis by (metis append_Nil2)
  next
    case False
    with assms have r: "hd ?r = CHR ''.''" "tl ?r \<noteq> []" "list_all is_digit (tl ?r)"
      by (auto simp: decimal_string_def Let_def)
    from False r(1) have "?r = CHR ''.'' # tl ?r" by (metis list.collapse)
    with s have "s = ?ip @ CHR ''.'' # tl ?r" by metis
    with ip r that(2) show thesis by blast
  qed
qed

lemma takeWhile_all: "list_all P xs \<Longrightarrow> takeWhile P (xs @ ys) = xs @ takeWhile P ys"
  by (simp add: list_all_iff takeWhile_append2)

lemma dropWhile_all: "list_all P xs \<Longrightarrow> dropWhile P (xs @ ys) = dropWhile P ys"
  by (simp add: list_all_iff dropWhile_append2)

lemma takeWhile_all': "list_all P xs \<Longrightarrow> takeWhile P xs = xs"
  by (simp add: list_all_iff)

lemma dropWhile_all': "list_all P xs \<Longrightarrow> dropWhile P xs = []"
  by (simp add: list_all_iff)

lemma pow10_0: "pow10 0 = 1"
  by (simp add: pow10_def)

lemma read_exponent_Nil: "read_exponent [] = 0"
  by (simp add: read_exponent_def)

lemma parseFloat_digits:
  assumes "ip \<noteq> []" and "list_all is_digit ip"
  shows "parseFloat ip = to_double (of_nat (digits_val ip))"
  using digits_head [OF assms, of "[]"] assms
  by (simp add: parseFloat_def Let_def takeWhile_all' dropWhile_all' read_exponent_Nil pow10_0
        digits_val_def)

lemma parseFloat_fraction:
  assumes "ip \<noteq> []" and "list_all is_digit ip" and "fp \<noteq> []" and "list_all is_digit fp"
  shows "parseFloat (ip @ CHR ''.'' # fp)
           = to_double (of_nat (digits_val ip) + of_nat (digits_val fp) / 10 ^ length fp)"
  using digits_head [OF assms(1,2), of "CHR ''.'' # fp"] assms
  by (simp add: parseFloat_def Let_def takeWhile_all dropWhile_all takeWhile_all' dropWhile_all'
        not_digit_dot read_exponent_Nil pow10_0)

lemma decimal_value_digits:
  assumes "list_all is_digit ip"
  shows "decimal_value ip = of_nat (digits_val ip)"
proof -
  from assms have "list_all (\<lambda>c. c \<noteq> CHR ''.'') ip"
    using is_digit_chars(4) by (auto simp: list_all_iff)
  then show ?thesis
    by (simp add: decimal_value_def Let_def takeWhile_all' digits_val_def)
qed

lemma decimal_value_fraction:
  assumes "list_all is_digit ip"
  shows "decimal_value (ip @ CHR ''.'' # fp)
           = of_nat (digits_val ip) + of_nat (digits_val fp) / 10 ^ length fp"
proof -
  from assms have "list_all (\<lambda>c. c \<noteq> CHR ''.'') ip"
    using is_digit_chars(4) by (auto simp: list_all_iff)
  then show ?thesis
    by (simp add: decimal_value_def Let_def takeWhile_all)
qed

lemma parseFloat_decimal_string:
  assumes "decimal_string s"
  shows "parseFloat s = to_double (decimal_value s)"
  using assms
  by (rule decimal_string_shape)
     (simp_all add: parseFloat_digits parseFloat_fraction decimal_value_digits decimal_value_fraction)

lemma parseInt10_integer_string:
  assumes "integer_string s"
  shows "parseInt10 s = to_double (of_nat (digits_val s))"
proof -
  from assms have s: "s \<noteq> []" "list_all is_digit s" by (simp_all add: integer_string_def)
  from digits_head [OF s, of "[]"] s show ?thesis
    by (simp add: parseInt10_def Let_def takeWhile_all')
qed

lemma syntheticShipment_accepted:
  "UpsRatedShipmentSchema (syntheticShipment q) = Some (syntheticShipment_parsed q)"
  by (simp add: syntheticShipment_def syntheticShipment_parsed_def schema_eval)

lemma syntheticShipments_accepted:
  "those (map UpsRatedShipmentSchema (map syntheticShipment qs)) = Some (map syntheticShipment_parsed qs)"
  by (induction qs) (simp_all add: syntheticShipment_accepted)

lemma synthetic_body_accepted:
  "UpsRateResponseSchema (buildSyntheticSuccessBody qs)
     = Some \<lparr>RateResponse = Some
         \<lparr>Response = Some \<lparr>ResponseStatus = Some \<lparr>status_Code = Some ''1'',
                                                    status_Description = Some ''Success''\<rparr>\<rparr>,
          RatedShipment = Some (map syntheticShipment_parsed qs)\<rparr>\<rparr>"
  using syntheticShipments_accepted [of qs]
  by (simp add: buildSyntheticSuccessBody_def UpsRateResponseSchema_def
        UpsRateResponseBodySchema_def UpsResponseSchema_def UpsResponseStatusSchema_def
        z_object_def z_array_def z_optional_def z_string_def field_def)

lemma synthetic_quote:
  assumes "well_formed_quote q"
  shows "ratedShipmentToQuote cid (syntheticShipment_parsed q) = expected_quote cid q"
proof -
  from assms have d: "decimal_string (q_totalCharge q)" and i: "integer_string (q_transitDays q)"
    by (simp_all add: well_formed_quote_def)
  from d have "q_totalCharge q \<noteq> []" by (auto simp: decimal_string_def Let_def)
  moreover from i have "q_transitDays q \<noteq> []" by (simp add: integer_string_def)
  ultimately show ?thesis
    using parseFloat_decimal_string [OF d] parseInt10_integer_string [OF i]
    by (simp add: ratedShipmentToQuote_def syntheticShipment_parsed_def expected_quote_def
          opt_chain_def nullish_def Let_def Number_isNaN_def to_double_not_NaN)
qed

text \<open>
  C7. Round trip: for every list of quotes given as well-formed strings, parsing the
  synthetic success body built from them, for carrier \<open>ups\<close>, succeeds with one quote per
  input, in the same order, whose service code, service name, total charge, currency code
  and transit days are those of the input.
\<close>

theorem synthetic_body_round_trip:
  assumes "\<forall>q \<in> set qs. well_formed_quote q"
  shows "parseUpsRateResponse (buildSyntheticSuccessBody qs) ''ups''
           = Inr \<lparr>quotes = map (expected_quote ''ups'') qs, requestId = None\<rparr>"
proof -
  from assms have "map (ratedShipmentToQuote ''ups'') (map syntheticShipment_parsed qs)
                     = map (expected_quote ''ups'') qs"
    by (simp add: synthetic_quote)
  then show ?thesis
    by (simp add: parseUpsRateResponse_def synthetic_body_accepted opt_chain_def nullish_def)
qed

theorem synthetic_body_round_trip_witness:
  "well_formed_quote ground_strings \<and> well_formed_quote express_strings
   \<and> parseUpsRateResponse (buildSyntheticSuccessBody [ground_strings, express_strings]) ''ups''
       = Inr \<lparr>quotes = [ground_quote, express_quote], requestId = None\<rparr>"
proof -
  have wf: "well_formed_quote ground_strings" "well_formed_quote express_strings"
    by (simp_all add: well_formed_quote_def decimal_string_def integer_string_def is_digit_def
          ground_strings_def express_strings_def)
  have g: "expected_quote ''ups'' ground_strings = ground_quote"
    by (simp add: expected_quote_def ground_strings_def ground_quote_def decimal_value_def
          digits_val_def digit_val_def to_double_small)
  have e: "expected_quote ''ups'' express_strings = express_quote"
    by (simp add: expected_quote_def express_strings_def express_quote_def decimal_value_def
          digits_val_def digit_val_def to_double_small)
  from synthetic_body_round_trip [of "[ground_strings, express_strings]"] wf g e
  show ?thesis by simp
qed

end
